theory Spec2Isabelle
  imports Complex_Main
begin

section \<open>JavaScript numbers\<close>

text \<open>
  The delay, the video times and every timeout of \<^verbatim>\<open>photoswipe-slideshow.esm.js\<close> are
  JavaScript numbers. A number is NaN, an infinity or a finite value. Finite values are
  kept exact (a rational); the rounding of IEEE doubles and the sign of zero are not
  part of the model.
\<close>

datatype jsnum = NaN | NegInf | Num rat | PosInf

fun isNaN :: "jsnum \<Rightarrow> bool" where
  "isNaN NaN = True"
| "isNaN _ = False"

text \<open>The comparison \<^verbatim>\<open>a <= b\<close>: false as soon as one side is NaN.\<close>

fun js_le :: "jsnum \<Rightarrow> jsnum \<Rightarrow> bool" where
  "js_le NaN _ = False"
| "js_le _ NaN = False"
| "js_le NegInf _ = True"
| "js_le _ PosInf = True"
| "js_le (Num a) (Num b) = (a \<le> b)"
| "js_le PosInf _ = False"
| "js_le (Num a) NegInf = False"

text \<open>\<^verbatim>\<open>a != b\<close> on numbers: NaN differs from everything, itself included.\<close>

definition js_neq :: "jsnum \<Rightarrow> jsnum \<Rightarrow> bool" where
  "js_neq a b = (isNaN a \<or> isNaN b \<or> a \<noteq> b)"

text \<open>Truthiness of a number, as in \<^verbatim>\<open>x || y\<close> and \<^verbatim>\<open>if (x)\<close>: 0 and NaN are falsy.\<close>

definition truthy :: "jsnum \<Rightarrow> bool" where
  "truthy a = (\<not> isNaN a \<and> a \<noteq> Num 0)"

text \<open>\<^verbatim>\<open>Math.max\<close> and \<^verbatim>\<open>Math.min\<close> of two numbers: NaN if either argument is NaN.\<close>

definition math_max :: "jsnum \<Rightarrow> jsnum \<Rightarrow> jsnum" where
  "math_max a b = (if isNaN a \<or> isNaN b then NaN else if js_le a b then b else a)"

definition math_min :: "jsnum \<Rightarrow> jsnum \<Rightarrow> jsnum" where
  "math_min a b = (if isNaN a \<or> isNaN b then NaN else if js_le a b then a else b)"

fun js_neg :: "jsnum \<Rightarrow> jsnum" where
  "js_neg NaN = NaN"
| "js_neg NegInf = PosInf"
| "js_neg (Num a) = Num (- a)"
| "js_neg PosInf = NegInf"

fun js_add :: "jsnum \<Rightarrow> jsnum \<Rightarrow> jsnum" where
  "js_add NaN _ = NaN"
| "js_add _ NaN = NaN"
| "js_add (Num a) (Num b) = Num (a + b)"
| "js_add PosInf NegInf = NaN"
| "js_add NegInf PosInf = NaN"
| "js_add PosInf _ = PosInf"
| "js_add NegInf _ = NegInf"
| "js_add (Num a) b = b"

definition js_sub :: "jsnum \<Rightarrow> jsnum \<Rightarrow> jsnum" where
  "js_sub a b = js_add a (js_neg b)"

text \<open>The sign of a number that is not NaN: \<open>-1\<close>, \<open>0\<close> or \<open>1\<close>.\<close>

fun js_sign :: "jsnum \<Rightarrow> int" where
  "js_sign NaN = 0"
| "js_sign NegInf = - 1"
| "js_sign (Num a) = (if a < 0 then - 1 else if a = 0 then 0 else 1)"
| "js_sign PosInf = 1"

fun js_mul :: "jsnum \<Rightarrow> jsnum \<Rightarrow> jsnum" where
  "js_mul NaN _ = NaN"
| "js_mul _ NaN = NaN"
| "js_mul (Num a) (Num b) = Num (a * b)"
| "js_mul a b =
     (if js_sign a * js_sign b = 0 then NaN
      else if js_sign a * js_sign b < 0 then NegInf else PosInf)"

text \<open>
  Division, used for the delay shown in seconds. A finite non-zero value divided by zero
  is an infinity whose sign is taken from the dividend (the zero is taken as positive).
\<close>

fun js_div :: "jsnum \<Rightarrow> jsnum \<Rightarrow> jsnum" where
  "js_div NaN _ = NaN"
| "js_div _ NaN = NaN"
| "js_div (Num a) (Num b) =
     (if b = 0 then (if a = 0 then NaN else if a < 0 then NegInf else PosInf)
      else Num (a / b))"
| "js_div (Num a) b = Num 0"
| "js_div a (Num b) =
     (if js_sign a * (if b < 0 then - 1 else 1) < 0 then NegInf else PosInf)"
| "js_div a b = NaN"

section \<open>Constants and options\<close>

definition INT32_MAX :: jsnum where
  "INT32_MAX = Num 2147483647"

text \<open>
  The constants of \<^verbatim>\<open>HTMLMediaElement\<close> that the readiness check reads. They belong to
  the browser, not to the plugin; the values are those of the HTML standard.
\<close>

definition HAVE_ENOUGH_DATA :: nat where
  "HAVE_ENOUGH_DATA = 4"

definition NETWORK_IDLE :: nat where
  "NETWORK_IDLE = 1"

definition NETWORK_LOADING :: nat where
  "NETWORK_LOADING = 2"

record options =
  defaultDelayMs :: jsnum
  playPauseButtonOrder :: int
  progressBarPosition :: string
  progressBarTransition :: string
  restartOnSlideChange :: bool
  autoHideProgressBar :: bool

definition defaultOptions :: options where
  "defaultOptions =
     \<lparr> defaultDelayMs = Num 4000,
       playPauseButtonOrder = 6,
       progressBarPosition = ''top'',
       progressBarTransition = ''ease'',
       restartOnSlideChange = False,
       autoHideProgressBar = True \<rparr>"

text \<open>
  The options object the caller passes to the constructor: every key may be absent.
  \<open>mergeOptions\<close> is the spread \<^verbatim>\<open>{...defaultOptions, ...options}\<close>.
\<close>

record callerOptions =
  optDefaultDelayMs :: "jsnum option"
  optPlayPauseButtonOrder :: "int option"
  optProgressBarPosition :: "string option"
  optProgressBarTransition :: "string option"
  optRestartOnSlideChange :: "bool option"
  optAutoHideProgressBar :: "bool option"

definition mergeOptions :: "callerOptions \<Rightarrow> options" where
  "mergeOptions c =
     \<lparr> defaultDelayMs = (case optDefaultDelayMs c of Some v \<Rightarrow> v
                           | None \<Rightarrow> defaultDelayMs defaultOptions),
       playPauseButtonOrder = (case optPlayPauseButtonOrder c of Some v \<Rightarrow> v
                           | None \<Rightarrow> playPauseButtonOrder defaultOptions),
       progressBarPosition = (case optProgressBarPosition c of Some v \<Rightarrow> v
                           | None \<Rightarrow> progressBarPosition defaultOptions),
       progressBarTransition = (case optProgressBarTransition c of Some v \<Rightarrow> v
                           | None \<Rightarrow> progressBarTransition defaultOptions),
       restartOnSlideChange = (case optRestartOnSlideChange c of Some v \<Rightarrow> v
                           | None \<Rightarrow> restartOnSlideChange defaultOptions),
       autoHideProgressBar = (case optAutoHideProgressBar c of Some v \<Rightarrow> v
                           | None \<Rightarrow> autoHideProgressBar defaultOptions) \<rparr>"

section \<open>The slide content, the timers and the state\<close>

text \<open>
  The media element of a video slide, with the fields the plugin reads, and the content
  of the current slide (\<^verbatim>\<open>pswp.currSlide.content\<close>): a video (its \<^verbatim>\<open>data.type\<close> is
  \<^verbatim>\<open>'video'\<close>) with its element, or any other content with the answer of its
  \<^verbatim>\<open>isLoading()\<close>. The host gallery is taken as well formed: the current slide has a
  content, a video content has its element, and the elements the plugin registers (the
  two icons and the progress bar) are in the document.
\<close>

record videoElement =
  paused :: bool
  duration :: jsnum
  currentTime :: jsnum
  ended :: bool
  readyState :: nat
  networkState :: nat

datatype content = Video videoElement | Other bool

text \<open>
  The three functions the plugin hands to \<^verbatim>\<open>setTimeout\<close>: the advance callback of the
  slideshow timer, the callback that shows the progress bar (it closes over the timeout of
  the slide) and the callback that polls a content which has not loaded.
\<close>

datatype callback = AdvanceCb | ShowBarCb jsnum | PollCb

type_synonym timer = "nat \<times> jsnum \<times> callback"

text \<open>
  The state: the fields of the \<^verbatim>\<open>PhotoSwipeSlideshow\<close> object first, under the names of
  the source, then what the plugin reads and writes in the browser.
  \<^item> \<open>storage\<close> is the entry \<^verbatim>\<open>pswp_delay\<close> of Local Storage, held as the number that
    \<^verbatim>\<open>Number\<close> reads from the stored string (\<open>None\<close>: no entry);
  \<^item> \<open>timers\<close> are the pending timeouts of the plugin (handle, delay, callback) and
    \<open>timerCount\<close> the number of handles given out so far;
  \<^item> \<open>barRunning\<close> is the class \<^verbatim>\<open>running\<close> of the progress bar, \<open>barTiming\<close> and
    \<open>barDuration\<close> its transition style, \<open>barOpacity\<close> its inline opacity;
  \<^item> \<open>iconStop\<close> and \<open>iconPlay\<close> tell whether each icon is displayed;
  \<^item> \<open>counter\<close> is the element \<^verbatim>\<open>.pswp__counter\<close> when the document has one: \<open>Some None\<close>
    while it shows what the gallery wrote, \<open>Some (Some q)\<close> once the plugin wrote
    \<open>q\<close> seconds;
  \<^item> \<open>hasKeepAwake\<close> is \<^verbatim>\<open>'keepAwake' in screen\<close>, \<open>keepAwake\<close> the flag itself,
    \<open>hasWakeLock\<close> is \<^verbatim>\<open>'wakeLock' in navigator\<close>;
  \<^item> \<open>pendingRequests\<close> counts the wake lock requests not yet settled,
    \<open>pendingReleases\<close> the release promises not yet settled, \<open>releaseCalls\<close> lists
    the sentinels on which \<^verbatim>\<open>release()\<close> was called, \<open>requestCalls\<close> counts the calls
    of \<^verbatim>\<open>request\<close>, \<open>sentinelCount\<close> the sentinels granted so far and \<open>listeners\<close>
    the sentinels that carry the plugin's \<^verbatim>\<open>release\<close> listener.
\<close>

record state =
  options :: options
  slideshowIsRunning :: bool
  slideshowTimerID :: "nat option"
  wakeLockIsRunning :: bool
  wakeLockSentinel :: "nat option"
  storage :: "jsnum option"
  timers :: "timer list"
  timerCount :: nat
  barRunning :: bool
  barTiming :: string
  barDuration :: "jsnum option"
  barOpacity :: "nat option"
  iconStop :: bool
  iconPlay :: bool
  counter :: "jsnum option option"
  hasKeepAwake :: bool
  keepAwake :: bool
  hasWakeLock :: bool
  pendingRequests :: nat
  pendingReleases :: nat
  releaseCalls :: "nat list"
  requestCalls :: nat
  sentinelCount :: nat
  listeners :: "nat list"
  content :: content

section \<open>The browser's timers\<close>

text \<open>
  \<^verbatim>\<open>setTimeout\<close> returns a handle greater than zero that no earlier call returned;
  \<^verbatim>\<open>clearTimeout\<close> drops the pending timeout with that handle, if there is one.
\<close>

definition setTimeout :: "callback \<Rightarrow> jsnum \<Rightarrow> state \<Rightarrow> nat \<times> state" where
  "setTimeout f ms s =
     (Suc (timerCount s),
      s\<lparr>timers := timers s @ [(Suc (timerCount s), ms, f)],
        timerCount := Suc (timerCount s)\<rparr>)"

definition clearTimeout :: "nat \<Rightarrow> state \<Rightarrow> state" where
  "clearTimeout h s = s\<lparr>timers := filter (\<lambda>t. fst t \<noteq> h) (timers s)\<rparr>"

section \<open>The methods of the plugin\<close>

definition setSlideshowLength :: "jsnum \<Rightarrow> state \<Rightarrow> state" where
  "setSlideshowLength newDelay s =
     (let s1 = s\<lparr>options := (options s)\<lparr>defaultDelayMs :=
                  math_min (math_max newDelay (Num 1000)) INT32_MAX\<rparr>\<rparr>
      in if js_neq (defaultDelayMs (options s1)) newDelay
         then s1\<lparr>storage := Some (defaultDelayMs (options s1))\<rparr>
         else s1)"

definition isVideoContent :: "content \<Rightarrow> bool" where
  "isVideoContent c = (case c of Video v \<Rightarrow> True | Other l \<Rightarrow> False)"

definition getSlideTimeout :: "state \<Rightarrow> jsnum" where
  "getSlideTimeout s =
     (case content s of
        Video videoElement \<Rightarrow>
          if paused videoElement then defaultDelayMs (options s)
          else if isNaN (duration videoElement) \<or> isNaN (currentTime videoElement)
          then defaultDelayMs (options s)
          else js_mul (js_sub (duration videoElement) (currentTime videoElement)) (Num 1000)
      | Other l \<Rightarrow> defaultDelayMs (options s))"

definition slideContentHasLoaded :: "state \<Rightarrow> bool" where
  "slideContentHasLoaded s =
     (case content s of
        Video videoElement \<Rightarrow>
          ended videoElement \<or>
          (readyState videoElement = HAVE_ENOUGH_DATA \<and>
           networkState videoElement \<in> set [NETWORK_IDLE, NETWORK_LOADING])
      | Other l \<Rightarrow> \<not> l)"

definition getSlideTransition :: "state \<Rightarrow> string" where
  "getSlideTransition s =
     (if isVideoContent (content s) then ''linear'' else progressBarTransition (options s))"

text \<open>
  \<open>toggleProgressBar\<close>: the argument is \<open>None\<close> when the source calls it with no
  argument; the bar is started only for a truthy timeout.
\<close>

definition toggleProgressBar :: "jsnum option \<Rightarrow> state \<Rightarrow> state" where
  "toggleProgressBar currentSlideTimeout s =
     (case currentSlideTimeout of
        Some t \<Rightarrow>
          if truthy t
          then s\<lparr>barTiming := getSlideTransition s, barDuration := Some t, barRunning := True\<rparr>
          else s\<lparr>barRunning := False\<rparr>
      | None \<Rightarrow> s\<lparr>barRunning := False\<rparr>)"

definition resetSlideshow :: "state \<Rightarrow> state" where
  "resetSlideshow s =
     (let s1 = toggleProgressBar None s
      in case slideshowTimerID s1 of
           Some h \<Rightarrow> if h \<noteq> 0 then (clearTimeout h s1)\<lparr>slideshowTimerID := None\<rparr> else s1
         | None \<Rightarrow> s1)"

definition goToNextSlideAfterTimeout :: "state \<Rightarrow> state" where
  "goToNextSlideAfterTimeout s =
     (let s1 = resetSlideshow s
      in if slideContentHasLoaded s1
         then (let currentSlideTimeout = getSlideTimeout s1;
                   (h, s2) = setTimeout AdvanceCb currentSlideTimeout s1;
                   s3 = s2\<lparr>slideshowTimerID := Some h\<rparr>;
                   (h', s4) = setTimeout (ShowBarCb currentSlideTimeout) (Num 100) s3
               in s4)
         else (let (h, s2) = setTimeout PollCb (Num 200) s1
               in s2\<lparr>slideshowTimerID := Some h\<rparr>))"

definition toggleWakeLock :: "state \<Rightarrow> state" where
  "toggleWakeLock s =
     (if wakeLockIsRunning s = slideshowIsRunning s then s
      else (let s1 =
                  (if hasKeepAwake s then s\<lparr>keepAwake := slideshowIsRunning s\<rparr>
                   else if hasWakeLock s then
                     (case wakeLockSentinel s of
                        Some w \<Rightarrow> s\<lparr>releaseCalls := releaseCalls s @ [w],
                                    pendingReleases := Suc (pendingReleases s)\<rparr>
                      | None \<Rightarrow> s\<lparr>requestCalls := Suc (requestCalls s),
                                  pendingRequests := Suc (pendingRequests s)\<rparr>)
                   else s)
            in s1\<lparr>wakeLockIsRunning := slideshowIsRunning s1\<rparr>))"

definition setSlideshowState :: "state \<Rightarrow> state" where
  "setSlideshowState s =
     (let s1 = s\<lparr>slideshowIsRunning := \<not> slideshowIsRunning s\<rparr>;
          s2 = (if slideshowIsRunning s1 then goToNextSlideAfterTimeout s1
                else resetSlideshow s1);
          s3 = s2\<lparr>iconStop := slideshowIsRunning s2, iconPlay := \<not> slideshowIsRunning s2\<rparr>;
          s4 = s3\<lparr>barOpacity := (if autoHideProgressBar (options s3) then None else Some 1)\<rparr>
      in toggleWakeLock s4)"

definition changeSlideshowLength :: "jsnum \<Rightarrow> state \<Rightarrow> state" where
  "changeSlideshowLength delta s =
     (if \<not> slideshowIsRunning s then s
      else (let s1 = setSlideshowLength (js_add (defaultDelayMs (options s)) delta) s;
                s2 = s1\<lparr>storage := Some (defaultDelayMs (options s1))\<rparr>;
                s3 = (case counter s2 of
                        Some x \<Rightarrow> s2\<lparr>counter :=
                                     Some (Some (js_div (defaultDelayMs (options s2)) (Num 1000)))\<rparr>
                      | None \<Rightarrow> s2)
            in goToNextSlideAfterTimeout s3))"

text \<open>
  The constructor, run in a browser state \<open>b\<close>: it merges the options, sets the delay
  from Local Storage (\<^verbatim>\<open>Number(null)\<close> is 0, so a missing entry is falsy, as are 0 and
  NaN) or else from the options, and initialises the four fields.
\<close>

definition constructor :: "callerOptions \<Rightarrow> state \<Rightarrow> state" where
  "constructor given b =
     (let s0 = b\<lparr>options := mergeOptions given\<rparr>;
          stored = (case storage s0 of None \<Rightarrow> Num 0 | Some v \<Rightarrow> v);
          s1 = setSlideshowLength
                 (if truthy stored then stored else defaultDelayMs (options s0)) s0
      in s1\<lparr>slideshowIsRunning := False, slideshowTimerID := None,
            wakeLockIsRunning := False, wakeLockSentinel := None\<rparr>)"

text \<open>
  A browser in which the plugin has done nothing yet: no timeout of the plugin is pending,
  the registered button shows the play icon, no wake lock was asked for. Its parameters are
  the stored delay, whether the document has a \<^verbatim>\<open>.pswp__counter\<close>, the two capabilities
  of the platform and the content of the slide the gallery opens on.
\<close>

definition browser :: "jsnum option \<Rightarrow> bool \<Rightarrow> bool \<Rightarrow> bool \<Rightarrow> content \<Rightarrow> state" where
  "browser stored hasCounter ka wl c =
     \<lparr> options = defaultOptions, slideshowIsRunning = False, slideshowTimerID = None,
       wakeLockIsRunning = False, wakeLockSentinel = None,
       storage = stored, timers = [], timerCount = 0,
       barRunning = False, barTiming = [], barDuration = None, barOpacity = None,
       iconStop = False, iconPlay = True,
       counter = (if hasCounter then Some None else None),
       hasKeepAwake = ka, keepAwake = False, hasWakeLock = wl,
       pendingRequests = 0, pendingReleases = 0, releaseCalls = [], requestCalls = 0,
       sentinelCount = 0, listeners = [], content = c \<rparr>"

section \<open>Event handlers\<close>

text \<open>The \<^verbatim>\<open>keydown\<close> listener, on \<^verbatim>\<open>e.code\<close>.\<close>

definition keydown :: "string \<Rightarrow> state \<Rightarrow> state" where
  "keydown code s =
     (if code = ''Space'' then setSlideshowState s
      else if code \<in> set [''ArrowUp'', ''NumpadAdd'', ''Equal'']
      then changeSlideshowLength (Num 1000) s
      else if code \<in> set [''ArrowDown'', ''NumpadSubtract'', ''Minus'']
      then changeSlideshowLength (Num (- 1000)) s
      else s)"

text \<open>The listeners of the gallery's \<^verbatim>\<open>change\<close> and \<^verbatim>\<open>close\<close> events.\<close>

definition onChange :: "state \<Rightarrow> state" where
  "onChange s =
     (if slideshowIsRunning s \<and> restartOnSlideChange (options s)
      then goToNextSlideAfterTimeout s else s)"

definition onClose :: "state \<Rightarrow> state" where
  "onClose s = (if slideshowIsRunning s then setSlideshowState s else s)"

text \<open>
  \<^verbatim>\<open>pswp.next()\<close> belongs to the gallery. With \<open>Some c\<close> the gallery moves to a slide of
  content \<open>c\<close> and dispatches \<^verbatim>\<open>change\<close> before it returns; with \<open>None\<close> it dispatches
  nothing.
\<close>

definition pswpNext :: "content option \<Rightarrow> state \<Rightarrow> state" where
  "pswpNext nxt s = (case nxt of Some c \<Rightarrow> onChange (s\<lparr>content := c\<rparr>) | None \<Rightarrow> s)"

text \<open>The bodies of the three timeout callbacks.\<close>

definition runCallback :: "callback \<Rightarrow> content option \<Rightarrow> state \<Rightarrow> state" where
  "runCallback f nxt s =
     (case f of
        AdvanceCb \<Rightarrow>
          (let s1 = pswpNext nxt s
           in if restartOnSlideChange (options s1) then s1 else goToNextSlideAfterTimeout s1)
      | ShowBarCb currentSlideTimeout \<Rightarrow>
          (if slideshowIsRunning s then toggleProgressBar (Some currentSlideTimeout) s else s)
      | PollCb \<Rightarrow> goToNextSlideAfterTimeout s)"

text \<open>
  The pending timeout of handle \<open>h\<close> expires: the browser takes it off the pending
  timeouts and runs its callback. Nothing happens when no such timeout is pending.
\<close>

definition timerFires :: "nat \<Rightarrow> content option \<Rightarrow> state \<Rightarrow> state" where
  "timerFires h nxt s =
     (case find (\<lambda>t. fst t = h) (timers s) of
        None \<Rightarrow> s
      | Some t \<Rightarrow>
          runCallback (snd (snd t)) nxt (s\<lparr>timers := filter (\<lambda>t. fst t \<noteq> h) (timers s)\<rparr>))"

text \<open>
  The continuations of the wake lock promises: a request is granted (the sentinel is
  saved and gets the \<^verbatim>\<open>release\<close> listener) or rejected (the error is ignored), a release
  promise is fulfilled, and the \<^verbatim>\<open>release\<close> event of a sentinel fires because the
  platform has taken the lock back.
\<close>

definition requestGranted :: "state \<Rightarrow> state" where
  "requestGranted s =
     (if pendingRequests s = 0 then s
      else s\<lparr>pendingRequests := pendingRequests s - 1,
             sentinelCount := Suc (sentinelCount s),
             wakeLockSentinel := Some (Suc (sentinelCount s)),
             listeners := listeners s @ [Suc (sentinelCount s)]\<rparr>)"

definition requestRejected :: "state \<Rightarrow> state" where
  "requestRejected s =
     (if pendingRequests s = 0 then s
      else s\<lparr>pendingRequests := pendingRequests s - 1\<rparr>)"

definition releaseFulfilled :: "state \<Rightarrow> state" where
  "releaseFulfilled s =
     (if pendingReleases s = 0 then s
      else s\<lparr>pendingReleases := pendingReleases s - 1, wakeLockSentinel := None\<rparr>)"

definition sentinelReleased :: "nat \<Rightarrow> state \<Rightarrow> state" where
  "sentinelReleased w s =
     (if w \<in> set (listeners s)
      then s\<lparr>listeners := removeAll w (listeners s),
             wakeLockSentinel := None, wakeLockIsRunning := False\<rparr>
      else s)"

section \<open>The event loop\<close>

text \<open>
  Everything that can happen to the plugin once it is constructed: a click on its button,
  a key, a slide change made by the user (\<open>SlideChanged\<close>, to the given content), the
  gallery closing, a timeout expiring, the current content changing on its own (loading
  ends, a video plays on) and the four continuations above.
\<close>

datatype event =
    Click
  | KeyDown string
  | SlideChanged content
  | GalleryClosed
  | TimerFires nat "content option"
  | ContentUpdated content
  | RequestGranted
  | RequestRejected
  | ReleaseFulfilled
  | SentinelReleased nat

fun step :: "event \<Rightarrow> state \<Rightarrow> state" where
  "step Click s = setSlideshowState s"
| "step (KeyDown code) s = keydown code s"
| "step (SlideChanged c) s = onChange (s\<lparr>content := c\<rparr>)"
| "step GalleryClosed s = onClose s"
| "step (TimerFires h nxt) s = timerFires h nxt s"
| "step (ContentUpdated c) s = s\<lparr>content := c\<rparr>"
| "step RequestGranted s = requestGranted s"
| "step RequestRejected s = requestRejected s"
| "step ReleaseFulfilled s = releaseFulfilled s"
| "step (SentinelReleased w) s = sentinelReleased w s"

fun run :: "event list \<Rightarrow> state \<Rightarrow> state" where
  "run [] s = s"
| "run (e # es) s = run es (step e s)"

text \<open>
  The timeouts whose handle the plugin keeps in \<open>slideshowTimerID\<close>: the advance timer
  and the poll that stands for it while the content loads.
\<close>

definition isSlideshowTimer :: "timer \<Rightarrow> bool" where
  "isSlideshowTimer t = (case snd (snd t) of ShowBarCb d \<Rightarrow> False | _ \<Rightarrow> True)"

definition slideshowTimers :: "state \<Rightarrow> timer list" where
  "slideshowTimers s = filter isSlideshowTimer (timers s)"

text \<open>
  The invariant of the event loop: at most one slideshow timer is pending, it is the one
  whose handle is in \<open>slideshowTimerID\<close>, that handle is never 0, and a stopped
  slideshow has no slideshow timer and a progress bar that is not running.
\<close>

definition timerInv :: "state \<Rightarrow> bool" where
  "timerInv s =
     (length (slideshowTimers s) \<le> 1 \<and>
      (\<forall>t \<in> set (slideshowTimers s). slideshowTimerID s = Some (fst t)) \<and>
      slideshowTimerID s \<noteq> Some 0 \<and>
      (slideshowIsRunning s \<or> (slideshowTimers s = [] \<and> \<not> barRunning s)))"

text \<open>The bounds of the delay: one second to the largest 32-bit timeout.\<close>

definition delayInBounds :: "jsnum \<Rightarrow> bool" where
  "delayInBounds d = (js_le (Num 1000) d \<and> js_le d INT32_MAX)"

text \<open>
  The delay the constructor asks \<open>setSlideshowLength\<close> for, in a browser state \<open>b\<close>
  and with the caller's options \<open>c\<close>: the stored delay when it is truthy, else the
  delay of the merged options.
\<close>

definition initialDelay :: "callerOptions \<Rightarrow> state \<Rightarrow> jsnum" where
  "initialDelay c b =
     (if truthy (case storage b of None \<Rightarrow> Num 0 | Some v \<Rightarrow> v)
      then (case storage b of None \<Rightarrow> Num 0 | Some v \<Rightarrow> v)
      else defaultDelayMs (mergeOptions c))"

text \<open>The empty options object, and a gallery opened with it on an image that has loaded.\<close>

definition noOptions :: callerOptions where
  "noOptions =
     \<lparr> optDefaultDelayMs = None, optPlayPauseButtonOrder = None,
       optProgressBarPosition = None, optProgressBarTransition = None,
       optRestartOnSlideChange = None, optAutoHideProgressBar = None \<rparr>"

definition imageGallery :: "bool \<Rightarrow> bool \<Rightarrow> state" where
  "imageGallery ka wl = constructor noOptions (browser None True ka wl (Other False))"

text \<open>
  Two media elements for the examples: a ten-second video at its third second, buffered
  and idle, and a video with too little data on a network that found no source.
\<close>

definition tenSecondVideo :: "bool \<Rightarrow> videoElement" where
  "tenSecondVideo p =
     \<lparr> paused = p, duration = Num 10, currentTime = Num 3, ended = False,
       readyState = 4, networkState = 1 \<rparr>"

definition stalledVideo :: "bool \<Rightarrow> videoElement" where
  "stalledVideo e =
     \<lparr> paused = False, duration = Num 10, currentTime = Num 3, ended = e,
       readyState = 2, networkState = 3 \<rparr>"

text \<open>
  A session: start, lengthen the delay, let the advance timer expire onto a slide that is
  still loading, poll once, the slide loads, poll again.
\<close>

definition sampleEvents :: "event list" where
  "sampleEvents =
     [Click, KeyDown ''ArrowUp'', TimerFires 3 (Some (Other True)), TimerFires 5 None,
      ContentUpdated (Other False), TimerFires 6 None]"

text \<open>
  A session in which the platform takes a wake lock back: three toggles (start, stop,
  start) before the first request is granted, each of them finding no sentinel and making
  a request; the first request is granted; the platform revokes that lock, so the
  \<^verbatim>\<open>release\<close> event of the first sentinel fires; the second request is granted.
\<close>

definition revokedEvents :: "event list" where
  "revokedEvents =
     [Click, Click, Click, RequestGranted, SentinelReleased 1, RequestGranted]"

text \<open>
  A session in which the slideshow is stopped and started again within the 100 ms that
  follow the first start: three toggles, then the timeout of handle 2 expires, which is
  the one the first start set for showing the progress bar.
\<close>

definition restartEvents :: "event list" where
  "restartEvents = [Click, Click, Click, TimerFires 2 None]"

section \<open>Frame lemmas and the invariant of the event loop\<close>

lemma resetSlideshow_fields [simp]:
  "slideshowIsRunning (resetSlideshow s) = slideshowIsRunning s"
  "barRunning (resetSlideshow s) = False"
  "options (resetSlideshow s) = options s"
  "content (resetSlideshow s) = content s"
  by (simp_all add: resetSlideshow_def toggleProgressBar_def clearTimeout_def Let_def
      split: option.splits)

lemma resetSlideshow_timers:
  "timers (resetSlideshow s) =
     (case slideshowTimerID s of
        Some h \<Rightarrow> if h \<noteq> 0 then filter (\<lambda>t. fst t \<noteq> h) (timers s) else timers s
      | None \<Rightarrow> timers s)"
  by (simp add: resetSlideshow_def toggleProgressBar_def clearTimeout_def Let_def
      split: option.splits)

lemma slideshowTimers_filter:
  "slideshowTimers (s\<lparr>timers := filter P (timers s)\<rparr>) = filter P (slideshowTimers s)"
  by (induction "timers s" arbitrary: s) (auto simp: slideshowTimers_def intro: filter_cong)

lemma resetSlideshow_slideshowTimers:
  "slideshowTimers (resetSlideshow s) =
     (case slideshowTimerID s of
        Some h \<Rightarrow> if h \<noteq> 0 then filter (\<lambda>t. fst t \<noteq> h) (slideshowTimers s)
                  else slideshowTimers s
      | None \<Rightarrow> slideshowTimers s)"
proof -
  have "filter isSlideshowTimer (filter P ts) = filter P (filter isSlideshowTimer ts)" for P ts
    by (induction ts) auto
  then show ?thesis
    by (simp add: slideshowTimers_def resetSlideshow_timers split: option.splits)
qed

lemma resetSlideshow_no_timer:
  assumes all: "\<forall>t \<in> set (slideshowTimers s). slideshowTimerID s = Some (fst t)"
    and nz: "slideshowTimerID s \<noteq> Some 0"
  shows "slideshowTimers (resetSlideshow s) = []"
proof (cases "slideshowTimers s")
  case Nil
  then show ?thesis by (simp add: resetSlideshow_slideshowTimers split: option.splits)
next
  case (Cons t ts)
  with all nz have t: "fst t \<noteq> 0" "slideshowTimerID s = Some (fst t)" by auto
  with all have "\<forall>u \<in> set (slideshowTimers s). fst u = fst t" by auto
  with t show ?thesis by (simp add: resetSlideshow_slideshowTimers filter_empty_conv)
qed

lemma resetSlideshow_handle_None:
  "slideshowTimerID s \<noteq> Some 0 \<Longrightarrow> slideshowTimerID (resetSlideshow s) = None"
  by (cases "slideshowTimerID s")
     (simp_all add: resetSlideshow_def toggleProgressBar_def clearTimeout_def Let_def)

lemma goTo_fields [simp]:
  "slideshowIsRunning (goToNextSlideAfterTimeout s) = slideshowIsRunning s"
  "barRunning (goToNextSlideAfterTimeout s) = False"
  "options (goToNextSlideAfterTimeout s) = options s"
  "content (goToNextSlideAfterTimeout s) = content s"
  by (simp_all add: goToNextSlideAfterTimeout_def setTimeout_def Let_def)

lemma goTo_timers:
  "slideshowTimers (goToNextSlideAfterTimeout s) =
     slideshowTimers (resetSlideshow s) @
       [(Suc (timerCount (resetSlideshow s)),
         if slideContentHasLoaded (resetSlideshow s) then getSlideTimeout (resetSlideshow s) else Num 200,
         if slideContentHasLoaded (resetSlideshow s) then AdvanceCb else PollCb)]"
  "slideshowTimerID (goToNextSlideAfterTimeout s) = Some (Suc (timerCount (resetSlideshow s)))"
  by (simp_all add: goToNextSlideAfterTimeout_def setTimeout_def Let_def slideshowTimers_def
      isSlideshowTimer_def)

lemma goTo_inv:
  "timerInv s \<Longrightarrow> slideshowIsRunning s \<Longrightarrow> timerInv (goToNextSlideAfterTimeout s)"
  by (simp add: timerInv_def goTo_timers resetSlideshow_no_timer)


lemma timerInv_cong:
  "timers s' = timers s \<Longrightarrow> slideshowTimerID s' = slideshowTimerID s \<Longrightarrow>
   slideshowIsRunning s' = slideshowIsRunning s \<Longrightarrow> barRunning s' = barRunning s \<Longrightarrow>
   timerInv s' = timerInv s"
  by (simp add: timerInv_def slideshowTimers_def)

lemma toggleWakeLock_frame [simp]:
  "timers (toggleWakeLock s) = timers s"
  "slideshowTimerID (toggleWakeLock s) = slideshowTimerID s"
  "slideshowIsRunning (toggleWakeLock s) = slideshowIsRunning s"
  "barRunning (toggleWakeLock s) = barRunning s"
  by (simp_all add: toggleWakeLock_def Let_def split: option.splits)

lemma setSlideshowState_inv: "timerInv s \<Longrightarrow> timerInv (setSlideshowState s)"
proof -
  assume inv: "timerInv s"
  let ?s1 = "s\<lparr>slideshowIsRunning := \<not> slideshowIsRunning s\<rparr>"
  let ?s2 = "if slideshowIsRunning ?s1 then goToNextSlideAfterTimeout ?s1 else resetSlideshow ?s1"
  have h: "timerInv (s\<lparr>slideshowIsRunning := True\<rparr>)"
    using inv by (simp add: timerInv_def slideshowTimers_def)
  have "timerInv ?s2"
  proof (cases "slideshowIsRunning s")
    case True
    have "slideshowTimers (resetSlideshow ?s1) = []"
      using inv by (intro resetSlideshow_no_timer) (simp_all add: timerInv_def slideshowTimers_def)
    moreover have "slideshowTimerID (resetSlideshow ?s1) = None"
      using inv by (intro resetSlideshow_handle_None) (simp add: timerInv_def)
    ultimately show ?thesis using True by (simp add: timerInv_def)
  next
    case False
    then show ?thesis using goTo_inv [OF h] by simp
  qed
  moreover have "timerInv (setSlideshowState s) = timerInv ?s2"
    unfolding setSlideshowState_def Let_def
    by (rule timerInv_cong) simp_all
  ultimately show ?thesis by simp
qed

lemma setSlideshowLength_frame [simp]:
  "timers (setSlideshowLength d s) = timers s"
  "slideshowTimerID (setSlideshowLength d s) = slideshowTimerID s"
  "slideshowIsRunning (setSlideshowLength d s) = slideshowIsRunning s"
  "barRunning (setSlideshowLength d s) = barRunning s"
  by (simp_all add: setSlideshowLength_def Let_def)

lemma changeSlideshowLength_inv: "timerInv s \<Longrightarrow> timerInv (changeSlideshowLength delta s)"
proof (cases "slideshowIsRunning s")
  case False
  assume "timerInv s"
  with False show ?thesis by (simp add: changeSlideshowLength_def)
next
  case True
  assume inv: "timerInv s"
  define s3 where "s3 =
    (let s1 = setSlideshowLength (js_add (defaultDelayMs (options s)) delta) s;
         s2 = s1\<lparr>storage := Some (defaultDelayMs (options s1))\<rparr>
     in case counter s2 of
          Some x \<Rightarrow> s2\<lparr>counter := Some (Some (js_div (defaultDelayMs (options s2)) (Num 1000)))\<rparr>
        | None \<Rightarrow> s2)"
  have "timerInv s3 = timerInv s"
    by (rule timerInv_cong) (simp_all add: s3_def Let_def split: option.splits)
  moreover have "slideshowIsRunning s3"
    using True by (simp add: s3_def Let_def split: option.splits)
  ultimately have "timerInv (goToNextSlideAfterTimeout s3)"
    using inv goTo_inv by simp
  moreover have "changeSlideshowLength delta s = goToNextSlideAfterTimeout s3"
    using True by (simp add: changeSlideshowLength_def s3_def Let_def)
  ultimately show ?thesis by simp
qed

lemma keydown_inv: "timerInv s \<Longrightarrow> timerInv (keydown code s)"
  by (simp add: keydown_def setSlideshowState_inv changeSlideshowLength_inv)

lemma onChange_inv: "timerInv s \<Longrightarrow> timerInv (onChange s)"
  by (simp add: onChange_def goTo_inv)

lemma onClose_inv: "timerInv s \<Longrightarrow> timerInv (onClose s)"
  by (simp add: onClose_def setSlideshowState_inv)

lemma content_inv: "timerInv (s\<lparr>content := c\<rparr>) = timerInv s"
  by (rule timerInv_cong) simp_all

lemma onChange_fields [simp]:
  "slideshowIsRunning (onChange s) = slideshowIsRunning s"
  "options (onChange s) = options s"
  by (simp_all add: onChange_def)

lemma pswpNext_inv: "timerInv s \<Longrightarrow> timerInv (pswpNext nxt s)"
  by (simp add: pswpNext_def onChange_inv content_inv split: option.splits)

lemma pswpNext_fields [simp]:
  "slideshowIsRunning (pswpNext nxt s) = slideshowIsRunning s"
  "options (pswpNext nxt s) = options s"
  by (simp_all add: pswpNext_def split: option.splits)

lemma toggleProgressBar_inv:
  "timerInv s \<Longrightarrow> slideshowIsRunning s \<Longrightarrow> timerInv (toggleProgressBar x s)"
  by (simp add: timerInv_def toggleProgressBar_def slideshowTimers_def split: option.splits)

lemma runCallback_inv:
  "timerInv s \<Longrightarrow> (\<forall>d. f \<noteq> ShowBarCb d) \<longrightarrow> slideshowIsRunning s \<Longrightarrow>
   timerInv (runCallback f nxt s)"
  by (cases f) (simp_all add: runCallback_def Let_def pswpNext_inv goTo_inv toggleProgressBar_inv)

lemma timerFires_inv: "timerInv s \<Longrightarrow> timerInv (timerFires h nxt s)"
proof (cases "find (\<lambda>t. fst t = h) (timers s)")
  case None
  assume "timerInv s"
  with None show ?thesis by (simp add: timerFires_def)
next
  case (Some t)
  assume inv: "timerInv s"
  let ?s' = "s\<lparr>timers := filter (\<lambda>t. fst t \<noteq> h) (timers s)\<rparr>"
  from Some have mem: "t \<in> set (timers s)" and fst: "fst t = h"
    by (auto simp: find_Some_iff in_set_conv_nth)
  have st: "slideshowTimers ?s' = filter (\<lambda>t. fst t \<noteq> h) (slideshowTimers s)"
    by (rule slideshowTimers_filter)
  have inv': "timerInv ?s'"
    using inv unfolding timerInv_def st
    by (auto intro: le_trans [OF length_filter_le])
  have run: "(\<forall>d. snd (snd t) \<noteq> ShowBarCb d) \<longrightarrow> slideshowIsRunning ?s'"
  proof
    assume "\<forall>d. snd (snd t) \<noteq> ShowBarCb d"
    then have "isSlideshowTimer t"
      by (cases "snd (snd t)") (simp_all add: isSlideshowTimer_def)
    with mem have "t \<in> set (slideshowTimers s)" by (simp add: slideshowTimers_def)
    then have "slideshowTimers s \<noteq> []" by auto
    with inv show "slideshowIsRunning ?s'" by (auto simp: timerInv_def)
  qed
  have "timerInv (runCallback (snd (snd t)) nxt ?s')"
    using inv' run by (rule runCallback_inv)
  with Some show ?thesis by (simp add: timerFires_def)
qed

lemma promise_inv:
  "timerInv (requestGranted s) = timerInv s"
  "timerInv (requestRejected s) = timerInv s"
  "timerInv (releaseFulfilled s) = timerInv s"
  "timerInv (sentinelReleased w s) = timerInv s"
  by (rule timerInv_cong;
      simp add: requestGranted_def requestRejected_def releaseFulfilled_def sentinelReleased_def)+

lemma step_inv: "timerInv s \<Longrightarrow> timerInv (step e s)"
  by (cases e)
     (simp_all add: setSlideshowState_inv keydown_inv onClose_inv timerFires_inv
        onChange_inv content_inv promise_inv)

lemma run_inv: "timerInv s \<Longrightarrow> timerInv (run es s)"
  by (induction es arbitrary: s) (simp_all add: step_inv)

lemma constructor_inv: "timerInv (constructor c (browser st hc ka wl c0))"
  by (simp add: timerInv_def slideshowTimers_def constructor_def browser_def Let_def
      setSlideshowLength_def)

section \<open>The delay and its persistence\<close>

lemma clamp_bounds:
  "\<not> isNaN d \<Longrightarrow> delayInBounds (math_min (math_max d (Num 1000)) INT32_MAX)"
  by (cases d) (auto simp: delayInBounds_def math_min_def math_max_def INT32_MAX_def)

lemma clamp_id:
  "delayInBounds d \<Longrightarrow> math_min (math_max d (Num 1000)) INT32_MAX = d"
  by (cases d) (auto simp: delayInBounds_def math_min_def math_max_def INT32_MAX_def)

lemma clamp_changes:
  "\<not> delayInBounds d \<Longrightarrow> js_neq (math_min (math_max d (Num 1000)) INT32_MAX) d"
  by (cases d) (auto simp: delayInBounds_def math_min_def math_max_def INT32_MAX_def js_neq_def)

lemma setSlideshowLength_delay:
  "defaultDelayMs (options (setSlideshowLength d s)) = math_min (math_max d (Num 1000)) INT32_MAX"
  by (simp add: setSlideshowLength_def Let_def)

lemma changeSlideshowLength_delay:
  "slideshowIsRunning s \<Longrightarrow>
     defaultDelayMs (options (changeSlideshowLength delta s)) =
     defaultDelayMs (options (setSlideshowLength (js_add (defaultDelayMs (options s)) delta) s))"
  by (simp add: changeSlideshowLength_def Let_def split: option.splits)

lemma constructor_delay:
  "defaultDelayMs (options (constructor c b)) =
     defaultDelayMs (options (setSlideshowLength (initialDelay c b) (b\<lparr>options := mergeOptions c\<rparr>)))"
  by (simp add: constructor_def initialDelay_def Let_def)

text \<open>
  Claim C1. For every number \<open>d\<close> asked of \<open>setSlideshowLength\<close>, finite or infinite,
  the delay left in \<open>options.defaultDelayMs\<close> lies between 1000 and 2147483647, and it
  is \<open>d\<close> itself when \<open>d\<close> already lies there. The same holds when the request comes
  from \<open>changeSlideshowLength\<close> on a running slideshow (\<open>d\<close> is the current delay plus
  the delta) and from the constructor (\<open>d\<close> is the stored delay, or else the delay of
  the options). NaN is not a delay: \<^verbatim>\<open>Math.max\<close> and \<^verbatim>\<open>Math.min\<close> hand it through.
\<close>

theorem setSlideshowLength_clamps:
  assumes "\<not> isNaN d"
  shows "delayInBounds (defaultDelayMs (options (setSlideshowLength d s))) \<and>
         (delayInBounds d \<longrightarrow> defaultDelayMs (options (setSlideshowLength d s)) = d) \<and>
         (slideshowIsRunning s \<and> js_add (defaultDelayMs (options s)) delta = d \<longrightarrow>
            delayInBounds (defaultDelayMs (options (changeSlideshowLength delta s))) \<and>
            (delayInBounds d \<longrightarrow> defaultDelayMs (options (changeSlideshowLength delta s)) = d)) \<and>
         (initialDelay c b = d \<longrightarrow>
            delayInBounds (defaultDelayMs (options (constructor c b))) \<and>
            (delayInBounds d \<longrightarrow> defaultDelayMs (options (constructor c b)) = d))"
  using assms
  by (auto simp: setSlideshowLength_delay changeSlideshowLength_delay constructor_delay
      clamp_bounds clamp_id simp del: isNaN.simps)

theorem setSlideshowLength_clamps_witness:
  "\<not> isNaN (Num 5000) \<and> delayInBounds (Num 5000) \<and>
   delayInBounds (defaultDelayMs (options (setSlideshowLength (Num 5000) (imageGallery False False)))) \<and>
   defaultDelayMs (options (setSlideshowLength (Num 5000) (imageGallery False False))) = Num 5000"
proof -
  have h: "\<not> isNaN (Num 5000)" by simp
  have b: "delayInBounds (Num 5000)" by (simp add: delayInBounds_def INT32_MAX_def)
  show ?thesis
    using h b setSlideshowLength_clamps [OF h, of "imageGallery False False"]
    by simp
qed

text \<open>
  Claim C6 says that the stored delay is written only when a request is clamped, so that a
  request within the bounds leaves Local Storage as it was, under \<open>setSlideshowLength\<close>
  and under \<open>changeSlideshowLength\<close>. That holds for \<open>setSlideshowLength\<close> and fails
  for \<open>changeSlideshowLength\<close>, which saves the delay after every change: on a running
  slideshow with the default delay of 4000 and nothing stored, the request for 5000 lies
  within the bounds and Local Storage holds 5000 afterwards.
\<close>

theorem changeSlideshowLength_saves_counterexample:
  "slideshowIsRunning (setSlideshowState (imageGallery False False)) \<and>
   js_add (defaultDelayMs (options (setSlideshowState (imageGallery False False)))) (Num 1000)
     = Num 5000 \<and>
   delayInBounds (Num 5000) \<and>
   storage (setSlideshowState (imageGallery False False)) = None \<and>
   storage (changeSlideshowLength (Num 1000) (setSlideshowState (imageGallery False False)))
     = Some (Num 5000)"
  by code_simp

text \<open>
  Claim C6, amended. \<open>setSlideshowLength\<close> leaves Local Storage unchanged when the
  requested delay lies within the bounds and writes the delay it has set otherwise;
  \<open>changeSlideshowLength\<close> on a running slideshow always writes the delay it has set,
  and on a stopped slideshow leaves Local Storage unchanged.
\<close>

theorem storage_written:
  "storage (setSlideshowLength d s) =
     (if delayInBounds d then storage s
      else Some (defaultDelayMs (options (setSlideshowLength d s)))) \<and>
   (slideshowIsRunning s \<longrightarrow>
      storage (changeSlideshowLength delta s) =
        Some (defaultDelayMs (options (changeSlideshowLength delta s)))) \<and>
   (\<not> slideshowIsRunning s \<longrightarrow> storage (changeSlideshowLength delta s) = storage s)"
proof -
  have "storage (setSlideshowLength d s) =
     (if delayInBounds d then storage s
      else Some (defaultDelayMs (options (setSlideshowLength d s))))"
  proof (cases "delayInBounds d")
    case True
    then have "\<not> isNaN d" by (cases d) (simp_all add: delayInBounds_def)
    with True show ?thesis
      by (simp add: setSlideshowLength_def Let_def js_neq_def clamp_id)
  next
    case False
    then show ?thesis
      using clamp_changes [of d] by (simp add: setSlideshowLength_def Let_def)
  qed
  moreover have "storage (goToNextSlideAfterTimeout x) = storage x" for x
    by (simp add: goToNextSlideAfterTimeout_def resetSlideshow_def toggleProgressBar_def
        setTimeout_def clearTimeout_def Let_def split: option.splits)
  ultimately show ?thesis
    by (simp add: changeSlideshowLength_def Let_def split: option.splits)
qed

theorem storage_written_witness:
  "storage (setSlideshowLength (Num 5000) (imageGallery False False)) = None \<and>
   storage (setSlideshowLength (Num 500) (imageGallery False False)) = Some (Num 1000) \<and>
   storage (changeSlideshowLength (Num 1000) (setSlideshowState (imageGallery False False)))
     = Some (Num 5000) \<and>
   storage (changeSlideshowLength (Num 1000) (imageGallery False False)) = None"
proof -
  have e: "delayInBounds (Num 5000)" "\<not> delayInBounds (Num 500)"
    "storage (imageGallery False False) = None"
    "defaultDelayMs (options (setSlideshowLength (Num 500) (imageGallery False False))) = Num 1000"
    "slideshowIsRunning (setSlideshowState (imageGallery False False))"
    "\<not> slideshowIsRunning (imageGallery False False)"
    "defaultDelayMs (options (changeSlideshowLength (Num 1000)
       (setSlideshowState (imageGallery False False)))) = Num 5000"
    by code_simp+
  show ?thesis
    using e storage_written [of "Num 5000" "imageGallery False False" "Num 1000"]
      storage_written [of "Num 500" "imageGallery False False" "Num 1000"]
      storage_written [of "Num 500" "setSlideshowState (imageGallery False False)" "Num 1000"]
    by simp
qed

text \<open>
  Claim C7. \<open>changeSlideshowLength\<close> does nothing on a stopped slideshow: whatever the
  delta, it returns the state it was given, so the delay, Local Storage, the counter
  element and the timers are all as before.
\<close>

theorem changeSlideshowLength_stopped:
  "\<not> slideshowIsRunning s \<Longrightarrow> changeSlideshowLength delta s = s"
  by (simp add: changeSlideshowLength_def)

theorem changeSlideshowLength_stopped_witness:
  "\<not> slideshowIsRunning (imageGallery False False) \<and>
   changeSlideshowLength (Num 1000) (imageGallery False False) = imageGallery False False \<and>
   keydown ''ArrowUp'' (imageGallery False False) = imageGallery False False"
proof -
  have h: "\<not> slideshowIsRunning (imageGallery False False)" by code_simp
  show ?thesis
    using h changeSlideshowLength_stopped [OF h, of "Num 1000"]
    by (simp add: keydown_def)
qed

section \<open>The timeout of a slide and its readiness\<close>

text \<open>
  Claim C4. \<open>getSlideTimeout\<close> is the configured delay for a content that is not a
  video, for a paused video and for a video whose duration or current time is NaN; for a
  playing video with both times known it is the duration less the current time, times
  1000. At a duration of 10 and a current time of 3 that is 7000 when the video plays and
  the configured delay when it is paused.
\<close>

theorem getSlideTimeout_cases:
  "(content s = Other l \<longrightarrow> getSlideTimeout s = defaultDelayMs (options s)) \<and>
   (content s = Video v \<and> paused v \<longrightarrow> getSlideTimeout s = defaultDelayMs (options s)) \<and>
   (content s = Video v \<and> (isNaN (duration v) \<or> isNaN (currentTime v)) \<longrightarrow>
      getSlideTimeout s = defaultDelayMs (options s)) \<and>
   (content s = Video v \<and> \<not> paused v \<and> \<not> isNaN (duration v) \<and> \<not> isNaN (currentTime v) \<longrightarrow>
      getSlideTimeout s = js_mul (js_sub (duration v) (currentTime v)) (Num 1000)) \<and>
   (content s = Video v \<and> duration v = Num 10 \<and> currentTime v = Num 3 \<and> \<not> paused v \<longrightarrow>
      getSlideTimeout s = Num 7000) \<and>
   (content s = Video v \<and> duration v = Num 10 \<and> currentTime v = Num 3 \<and> paused v \<longrightarrow>
      getSlideTimeout s = defaultDelayMs (options s))"
  by (simp add: getSlideTimeout_def js_sub_def)

theorem getSlideTimeout_cases_witness:
  "getSlideTimeout (imageGallery False False\<lparr>content := Video (tenSecondVideo False)\<rparr>) = Num 7000 \<and>
   getSlideTimeout (imageGallery False False\<lparr>content := Video (tenSecondVideo True)\<rparr>) = Num 4000 \<and>
   getSlideTimeout (imageGallery False False) = Num 4000"
proof -
  let ?s = "\<lambda>p. imageGallery False False\<lparr>content := Video (tenSecondVideo p)\<rparr>"
  have d: "defaultDelayMs (options (imageGallery False False)) = Num 4000"
    by code_simp
  have c: "content (imageGallery False False) = Other False"
    by code_simp
  have v: "duration (tenSecondVideo p) = Num 10" "currentTime (tenSecondVideo p) = Num 3"
    "paused (tenSecondVideo p) = p" for p
    by (simp_all add: tenSecondVideo_def)
  show ?thesis
    using getSlideTimeout_cases [of "?s False" False "tenSecondVideo False"]
      getSlideTimeout_cases [of "?s True" False "tenSecondVideo True"]
      getSlideTimeout_cases [of "imageGallery False False" False "tenSecondVideo True"] d c v
    by (simp add: js_sub_def)
qed

text \<open>
  Claim C5. \<open>slideContentHasLoaded\<close> is true for a video that has ended, whatever its
  other fields; it is false for a video that has not ended and whose ready state is below
  \<^verbatim>\<open>HAVE_ENOUGH_DATA\<close>; for a content that is not a video it is true exactly when
  \<^verbatim>\<open>isLoading()\<close> is false.
\<close>

theorem slideContentHasLoaded_cases:
  "(content s = Video v \<and> ended v \<longrightarrow> slideContentHasLoaded s) \<and>
   (content s = Video v \<and> \<not> ended v \<and> readyState v < HAVE_ENOUGH_DATA \<longrightarrow>
      \<not> slideContentHasLoaded s) \<and>
   (content s = Other l \<longrightarrow> slideContentHasLoaded s = (\<not> l))"
  by (auto simp: slideContentHasLoaded_def)

theorem slideContentHasLoaded_cases_witness:
  "slideContentHasLoaded (imageGallery False False\<lparr>content := Video (stalledVideo True)\<rparr>) \<and>
   \<not> slideContentHasLoaded (imageGallery False False\<lparr>content := Video (stalledVideo False)\<rparr>) \<and>
   slideContentHasLoaded (imageGallery False False\<lparr>content := Other False\<rparr>) \<and>
   \<not> slideContentHasLoaded (imageGallery False False\<lparr>content := Other True\<rparr>)"
proof -
  let ?s = "\<lambda>c. imageGallery False False\<lparr>content := c\<rparr>"
  have v: "ended (stalledVideo e) = e" "readyState (stalledVideo e) < HAVE_ENOUGH_DATA" for e
    by (simp_all add: stalledVideo_def HAVE_ENOUGH_DATA_def)
  show ?thesis
    using slideContentHasLoaded_cases [of "?s (Video (stalledVideo True))" "stalledVideo True" False]
      slideContentHasLoaded_cases [of "?s (Video (stalledVideo False))" "stalledVideo False" False]
      slideContentHasLoaded_cases [of "?s (Other False)" "stalledVideo False" False]
      slideContentHasLoaded_cases [of "?s (Other True)" "stalledVideo False" True] v
    by simp
qed

section \<open>The wake lock flag\<close>

lemma toggleWakeLock_flag_eq:
  "wakeLockIsRunning (toggleWakeLock s) = slideshowIsRunning s"
  by (simp add: toggleWakeLock_def Let_def split: option.splits)

lemma toggleWakeLock_releaseCalls:
  "releaseCalls (toggleWakeLock s) =
     releaseCalls s @
       (if wakeLockIsRunning s \<noteq> slideshowIsRunning s \<and> \<not> hasKeepAwake s \<and> hasWakeLock s
        then (case wakeLockSentinel s of Some w \<Rightarrow> [w] | None \<Rightarrow> [])
        else [])"
  by (simp add: toggleWakeLock_def Let_def split: option.splits)

lemma toggleWakeLock_keepAwake:
  "keepAwake (toggleWakeLock s) =
     (if wakeLockIsRunning s \<noteq> slideshowIsRunning s \<and> hasKeepAwake s
      then slideshowIsRunning s else keepAwake s)"
  by (simp add: toggleWakeLock_def Let_def split: option.splits)

lemma resetSlideshow_wake [simp]:
  "releaseCalls (resetSlideshow s) = releaseCalls s"
  "wakeLockIsRunning (resetSlideshow s) = wakeLockIsRunning s"
  "wakeLockSentinel (resetSlideshow s) = wakeLockSentinel s"
  "hasKeepAwake (resetSlideshow s) = hasKeepAwake s"
  "hasWakeLock (resetSlideshow s) = hasWakeLock s"
  "keepAwake (resetSlideshow s) = keepAwake s"
  by (simp_all add: resetSlideshow_def toggleProgressBar_def clearTimeout_def Let_def
      split: option.splits)

text \<open>
  Claim C10. When \<open>toggleWakeLock\<close> returns, \<open>wakeLockIsRunning\<close> equals
  \<open>slideshowIsRunning\<close>, on every platform and whatever became of the request; the same
  holds when \<open>setSlideshowState\<close> returns, since the call is its last step. So the flag
  can be set while no sentinel is held: after one click on a platform with no wake lock at
  all, after one click while the request is still pending, and after the request was
  rejected.
\<close>

theorem toggleWakeLock_flag:
  "wakeLockIsRunning (toggleWakeLock s) = slideshowIsRunning (toggleWakeLock s) \<and>
   wakeLockIsRunning (setSlideshowState s) = slideshowIsRunning (setSlideshowState s) \<and>
   (wakeLockIsRunning (run [Click] (imageGallery False False)) \<and>
    wakeLockSentinel (run [Click] (imageGallery False False)) = None) \<and>
   (wakeLockIsRunning (run [Click] (imageGallery False True)) \<and>
    wakeLockSentinel (run [Click] (imageGallery False True)) = None \<and>
    pendingRequests (run [Click] (imageGallery False True)) = 1) \<and>
   (wakeLockIsRunning (run [Click, RequestRejected] (imageGallery False True)) \<and>
    wakeLockSentinel (run [Click, RequestRejected] (imageGallery False True)) = None \<and>
    pendingRequests (run [Click, RequestRejected] (imageGallery False True)) = 0)"
proof -
  have a: "wakeLockIsRunning (toggleWakeLock x) = slideshowIsRunning (toggleWakeLock x)" for x
    by (simp add: toggleWakeLock_def Let_def split: option.splits)
  have b: "wakeLockIsRunning (setSlideshowState s) = slideshowIsRunning (setSlideshowState s)"
    unfolding setSlideshowState_def Let_def by (rule a)
  have c: "wakeLockIsRunning (run [Click] (imageGallery False False)) \<and>
    wakeLockSentinel (run [Click] (imageGallery False False)) = None"
    by code_simp
  have d: "wakeLockIsRunning (run [Click] (imageGallery False True)) \<and>
    wakeLockSentinel (run [Click] (imageGallery False True)) = None \<and>
    pendingRequests (run [Click] (imageGallery False True)) = 1"
    by code_simp
  have e: "wakeLockIsRunning (run [Click, RequestRejected] (imageGallery False True)) \<and>
    wakeLockSentinel (run [Click, RequestRejected] (imageGallery False True)) = None \<and>
    pendingRequests (run [Click, RequestRejected] (imageGallery False True)) = 0"
    by code_simp
  from a b c d e show ?thesis by blast
qed

theorem toggleWakeLock_flag_witness:
  "wakeLockIsRunning (toggleWakeLock (imageGallery True False\<lparr>slideshowIsRunning := True\<rparr>)) \<and>
   slideshowIsRunning (toggleWakeLock (imageGallery True False\<lparr>slideshowIsRunning := True\<rparr>)) \<and>
   keepAwake (toggleWakeLock (imageGallery True False\<lparr>slideshowIsRunning := True\<rparr>))"
proof -
  have e: "slideshowIsRunning (toggleWakeLock (imageGallery True False\<lparr>slideshowIsRunning := True\<rparr>))"
    "keepAwake (toggleWakeLock (imageGallery True False\<lparr>slideshowIsRunning := True\<rparr>))"
    by code_simp+
  show ?thesis
    using e toggleWakeLock_flag [of "imageGallery True False\<lparr>slideshowIsRunning := True\<rparr>"]
    by simp
qed

section \<open>Toggling\<close>

lemma resetSlideshow_handle:
  "slideshowTimerID s = Some h \<Longrightarrow> h \<noteq> 0 \<Longrightarrow>
     slideshowTimerID (resetSlideshow s) = None \<and> h \<notin> fst ` set (timers (resetSlideshow s))"
  by (auto simp: resetSlideshow_def toggleProgressBar_def clearTimeout_def Let_def)

lemma resetSlideshow_timerCount [simp]: "timerCount (resetSlideshow s) = timerCount s"
  by (simp add: resetSlideshow_def toggleProgressBar_def clearTimeout_def Let_def
      split: option.splits)

lemma setSlideshowState_start:
  "\<not> slideshowIsRunning s \<Longrightarrow>
     slideshowIsRunning (setSlideshowState s) \<and>
     slideshowTimerID (setSlideshowState s) = Some (Suc (timerCount s))"
  by (simp add: setSlideshowState_def Let_def goTo_timers)

lemma setSlideshowState_stop:
  "slideshowIsRunning s \<Longrightarrow>
     \<not> slideshowIsRunning (setSlideshowState s) \<and>
     \<not> wakeLockIsRunning (setSlideshowState s) \<and>
     \<not> barRunning (setSlideshowState s) \<and>
     slideshowTimerID (setSlideshowState s) =
       slideshowTimerID (resetSlideshow (s\<lparr>slideshowIsRunning := False\<rparr>)) \<and>
     timers (setSlideshowState s) = timers (resetSlideshow (s\<lparr>slideshowIsRunning := False\<rparr>))"
  by (simp add: setSlideshowState_def Let_def toggleWakeLock_flag_eq)

text \<open>
  Claim C3. From a stopped slideshow, two calls of \<open>setSlideshowState\<close> end in a stopped
  slideshow whose \<open>slideshowTimerID\<close> is null and whose wake lock flag is false. The
  timer that the first call starts (its handle is the next one the browser gives out) is
  no longer pending after the second.
\<close>

theorem toggle_twice:
  assumes "\<not> slideshowIsRunning s"
  shows "\<not> slideshowIsRunning (setSlideshowState (setSlideshowState s)) \<and>
         slideshowTimerID (setSlideshowState (setSlideshowState s)) = None \<and>
         \<not> wakeLockIsRunning (setSlideshowState (setSlideshowState s)) \<and>
         slideshowTimerID (setSlideshowState s) = Some (Suc (timerCount s)) \<and>
         Suc (timerCount s) \<notin> fst ` set (timers (setSlideshowState (setSlideshowState s)))"
proof -
  let ?s1 = "setSlideshowState s"
  from assms have s1: "slideshowIsRunning ?s1" "slideshowTimerID ?s1 = Some (Suc (timerCount s))"
    using setSlideshowState_start by simp_all
  have "slideshowTimerID (?s1\<lparr>slideshowIsRunning := False\<rparr>) = Some (Suc (timerCount s))"
    using s1 by simp
  from resetSlideshow_handle [OF this] setSlideshowState_stop [OF s1(1)] s1(2)
  show ?thesis by simp
qed

theorem toggle_twice_witness:
  "\<not> slideshowIsRunning (imageGallery False True) \<and>
   \<not> slideshowIsRunning (setSlideshowState (setSlideshowState (imageGallery False True))) \<and>
   slideshowTimerID (setSlideshowState (setSlideshowState (imageGallery False True))) = None \<and>
   \<not> wakeLockIsRunning (setSlideshowState (setSlideshowState (imageGallery False True))) \<and>
   slideshowTimers (setSlideshowState (setSlideshowState (imageGallery False True))) = []"
proof -
  have h: "\<not> slideshowIsRunning (imageGallery False True)" by code_simp
  have t: "slideshowTimers (setSlideshowState (setSlideshowState (imageGallery False True))) = []"
    by code_simp
  show ?thesis using h t toggle_twice [OF h] by simp
qed

section \<open>Sessions\<close>

text \<open>
  Claim C9 says that the callback which shows the progress bar never marks it running once
  the slideshow has been toggled off within the 100 ms before the callback runs. The
  callback looks at \<open>slideshowIsRunning\<close> when it runs, and its timeout is never
  cleared: in the session \<open>restartEvents\<close> the first start sets the timeout of
  handle 2, the stop and the second start leave it pending and the bar not running, and
  when it expires the slideshow runs again, so the callback of the first start marks the
  bar running.
\<close>

theorem stale_display_callback_counterexample:
  "(2, Num 100, ShowBarCb (Num 4000)) \<in> set (timers (run [Click] (imageGallery False False))) \<and>
   \<not> slideshowIsRunning (run [Click, Click] (imageGallery False False)) \<and>
   (2, Num 100, ShowBarCb (Num 4000)) \<in>
     set (timers (run [Click, Click, Click] (imageGallery False False))) \<and>
   \<not> barRunning (run [Click, Click, Click] (imageGallery False False)) \<and>
   barRunning (run restartEvents (imageGallery False False))"
  by code_simp

text \<open>
  Claim C9, amended. The callback that shows the progress bar looks at
  \<open>slideshowIsRunning\<close> when it runs: run on a stopped slideshow it changes nothing.
  And in every state that a session reaches from a freshly constructed plugin, a stopped
  slideshow has a progress bar that is not running.
\<close>

theorem stale_display_callback:
  "(\<not> slideshowIsRunning s \<longrightarrow> runCallback (ShowBarCb t) nxt s = s) \<and>
   (\<not> slideshowIsRunning (run es (constructor c (browser st hc ka wl c0))) \<longrightarrow>
      \<not> barRunning (run es (constructor c (browser st hc ka wl c0))))"
proof -
  have "timerInv (run es (constructor c (browser st hc ka wl c0)))"
    by (rule run_inv [OF constructor_inv])
  then show ?thesis by (auto simp: timerInv_def runCallback_def)
qed

theorem stale_display_callback_witness:
  "\<not> slideshowIsRunning (run [Click, Click] (imageGallery False False)) \<and>
   (2, Num 100, ShowBarCb (Num 4000)) \<in> set (timers (run [Click, Click] (imageGallery False False))) \<and>
   \<not> slideshowIsRunning (run [Click, Click, TimerFires 2 None] (imageGallery False False)) \<and>
   \<not> barRunning (run [Click, Click, TimerFires 2 None] (imageGallery False False))"
proof -
  have e: "\<not> slideshowIsRunning (run [Click, Click] (imageGallery False False))"
    "(2, Num 100, ShowBarCb (Num 4000)) \<in> set (timers (run [Click, Click] (imageGallery False False)))"
    "\<not> slideshowIsRunning (run [Click, Click, TimerFires 2 None] (imageGallery False False))"
    by code_simp+
  show ?thesis
    using e stale_display_callback [of "imageGallery False False" "Num 4000" None
        "[Click, Click, TimerFires 2 None]" noOptions None True False False "Other False"]
    by (simp add: imageGallery_def)
qed

text \<open>
  Claim C2. In every state that a session reaches from a freshly constructed plugin,
  whatever the events (clicks, keys, slide changes, expiring timers, the gallery closing,
  settling promises), at most one slideshow timer is pending. \<open>resetSlideshow\<close>, the
  first step of \<open>goToNextSlideAfterTimeout\<close>, leaves none pending, and after
  \<open>goToNextSlideAfterTimeout\<close> exactly one is.
\<close>

theorem one_slideshow_timer:
  "length (slideshowTimers (run es (constructor c (browser st hc ka wl c0)))) \<le> 1 \<and>
   slideshowTimers (resetSlideshow (run es (constructor c (browser st hc ka wl c0)))) = [] \<and>
   length (slideshowTimers
     (goToNextSlideAfterTimeout (run es (constructor c (browser st hc ka wl c0))))) = 1"
proof -
  let ?s = "run es (constructor c (browser st hc ka wl c0))"
  have inv: "timerInv ?s"
    by (rule run_inv [OF constructor_inv])
  then have "slideshowTimers (resetSlideshow ?s) = []"
    by (intro resetSlideshow_no_timer) (simp_all add: timerInv_def)
  with inv show ?thesis by (simp add: timerInv_def goTo_timers)
qed

theorem one_slideshow_timer_witness:
  "slideshowTimers (run sampleEvents (imageGallery False False)) = [(7, Num 5000, AdvanceCb)] \<and>
   length (slideshowTimers (run sampleEvents (imageGallery False False))) \<le> 1 \<and>
   slideshowTimers (resetSlideshow (run sampleEvents (imageGallery False False))) = []"
proof -
  have e: "slideshowTimers (run sampleEvents (imageGallery False False))
     = [(7, Num 5000, AdvanceCb)]"
    by code_simp
  show ?thesis
    using e one_slideshow_timer [of sampleEvents noOptions None True False False "Other False"]
    by (simp add: imageGallery_def)
qed

text \<open>
  Closing the gallery on a running slideshow, in every state that a session reaches from a
  freshly constructed plugin: the slideshow is stopped, \<open>slideshowTimerID\<close> is null, no
  slideshow timer is pending and the wake lock flag is false. \<^verbatim>\<open>release()\<close> is called at
  most once: exactly once, on the held sentinel, when the wake lock flag is set and the
  Wake Lock API is the one in use, and not at all when no sentinel is held. Where
  \<^verbatim>\<open>screen.keepAwake\<close> is in use and the flag is set, \<^verbatim>\<open>keepAwake\<close> becomes false.
\<close>

lemma close_while_running:
  assumes run: "slideshowIsRunning (run es (constructor c (browser st hc ka wl c0)))"
  shows "\<not> slideshowIsRunning (onClose (run es (constructor c (browser st hc ka wl c0)))) \<and>
     slideshowTimerID (onClose (run es (constructor c (browser st hc ka wl c0)))) = None \<and>
     slideshowTimers (onClose (run es (constructor c (browser st hc ka wl c0)))) = [] \<and>
     \<not> wakeLockIsRunning (onClose (run es (constructor c (browser st hc ka wl c0)))) \<and>
     (wakeLockSentinel (run es (constructor c (browser st hc ka wl c0))) = None \<longrightarrow>
        releaseCalls (onClose (run es (constructor c (browser st hc ka wl c0)))) =
        releaseCalls (run es (constructor c (browser st hc ka wl c0)))) \<and>
     (wakeLockIsRunning (run es (constructor c (browser st hc ka wl c0))) \<and>
      \<not> hasKeepAwake (run es (constructor c (browser st hc ka wl c0))) \<and>
      hasWakeLock (run es (constructor c (browser st hc ka wl c0))) \<and>
      wakeLockSentinel (run es (constructor c (browser st hc ka wl c0))) = Some w \<longrightarrow>
        releaseCalls (onClose (run es (constructor c (browser st hc ka wl c0)))) =
        releaseCalls (run es (constructor c (browser st hc ka wl c0))) @ [w]) \<and>
     length (releaseCalls (onClose (run es (constructor c (browser st hc ka wl c0))))) \<le>
        Suc (length (releaseCalls (run es (constructor c (browser st hc ka wl c0))))) \<and>
     (wakeLockIsRunning (run es (constructor c (browser st hc ka wl c0))) \<and>
      hasKeepAwake (run es (constructor c (browser st hc ka wl c0))) \<longrightarrow>
        \<not> keepAwake (onClose (run es (constructor c (browser st hc ka wl c0)))))"
proof -
  define s where "s = run es (constructor c (browser st hc ka wl c0))"
  let ?s1 = "s\<lparr>slideshowIsRunning := False\<rparr>"
  have inv: "timerInv s"
    unfolding s_def by (rule run_inv [OF constructor_inv])
  have running: "slideshowIsRunning s"
    using run by (simp add: s_def)
  have "timerInv (setSlideshowState s)"
    using inv by (rule setSlideshowState_inv)
  moreover have stopped: "\<not> slideshowIsRunning (setSlideshowState s)"
    using running by (simp add: setSlideshowState_def Let_def)
  ultimately have timers: "slideshowTimers (setSlideshowState s) = []"
    by (simp add: timerInv_def)
  have "slideshowTimerID (resetSlideshow ?s1) = None"
    using inv by (intro resetSlideshow_handle_None) (simp add: timerInv_def)
  then have handle: "slideshowTimerID (setSlideshowState s) = None"
    using running by (simp add: setSlideshowState_def Let_def)
  have flag: "\<not> wakeLockIsRunning (setSlideshowState s)"
    using running by (simp add: setSlideshowState_def Let_def toggleWakeLock_flag_eq)
  have rel: "releaseCalls (setSlideshowState s) =
     releaseCalls s @
       (if wakeLockIsRunning s \<and> \<not> hasKeepAwake s \<and> hasWakeLock s
        then (case wakeLockSentinel s of Some w \<Rightarrow> [w] | None \<Rightarrow> [])
        else [])"
    using running by (simp add: setSlideshowState_def Let_def toggleWakeLock_releaseCalls)
  have keep: "wakeLockIsRunning s \<and> hasKeepAwake s \<longrightarrow> \<not> keepAwake (setSlideshowState s)"
    using running by (simp add: setSlideshowState_def Let_def toggleWakeLock_keepAwake)
  have close: "onClose s = setSlideshowState s"
    using running by (simp add: onClose_def)
  show ?thesis
    unfolding s_def [symmetric] close
    using stopped handle timers flag keep
    by (simp add: rel split: option.splits)
qed

text \<open>
  Claim C8. Closing the gallery on a running slideshow is to stop it, cancel the timer and
  release any held wake lock exactly once. The code decides the release by the flag
  \<open>wakeLockIsRunning\<close> alone. After the session \<open>revokedEvents\<close> the slideshow runs,
  the flag is false (the \<^verbatim>\<open>release\<close> listener of the revoked sentinel cleared it) and
  the sentinel of the second request is held. Closing the gallery then stops the
  slideshow and cancels the timer, but \<open>toggleWakeLock\<close> finds the flag equal to the
  running state and returns at once: \<^verbatim>\<open>release()\<close> is called on nothing and the sentinel
  stays held after the gallery has closed.
\<close>

theorem close_leaves_sentinel_held:
  "slideshowIsRunning (run revokedEvents (imageGallery False True)) \<and>
   \<not> wakeLockIsRunning (run revokedEvents (imageGallery False True)) \<and>
   wakeLockSentinel (run revokedEvents (imageGallery False True)) = Some 2 \<and>
   releaseCalls (run revokedEvents (imageGallery False True)) = [] \<and>
   \<not> slideshowIsRunning (onClose (run revokedEvents (imageGallery False True))) \<and>
   slideshowTimerID (onClose (run revokedEvents (imageGallery False True))) = None \<and>
   slideshowTimers (onClose (run revokedEvents (imageGallery False True))) = [] \<and>
   releaseCalls (onClose (run revokedEvents (imageGallery False True))) = [] \<and>
   wakeLockSentinel (onClose (run revokedEvents (imageGallery False True))) = Some 2"
  by code_simp

end
